theory Spec2Isabelle
  imports Main
begin

section \<open>The OAuth authorization-code flow of \<open>src/app.ts\<close>\<close>

text \<open>
  The program authenticates against the provider in two functions:
  \<open>getSpotifyAuthCode\<close> (open the browser, run an HTTP listener for the redirect, settle
  a promise with the code) and \<open>initializeSpotifyClientWithOAuth\<close> (build the URL, await
  the code, fetch the token, clone the client with the token).

  Everything the functions do to the outside is written to a trace of effects;
  everything the outside decides (how a URL string parses, whether the port binds, which
  requests arrive, what the SDK answers) is a field of the record \<open>world\<close>.
\<close>

subsection \<open>JavaScript values\<close>

datatype js_error =
    Error string
  | TypeError string
  | ListenError string
  | OAuthProviderError string
  | ApiError string

text \<open>
  The value the SDK's \<open>fetchToken\<close> promise is fulfilled with. Its declared type is an
  object; \<open>if (!token)\<close> tests JavaScript truthiness, so the absent values and the
  empty string are kept apart from an object.
\<close>

record oauth_token =
  accessToken :: string
  tokenType :: string

datatype token_value =
    Undefined
  | Null
  | TokenString string
  | TokenObject oauth_token

fun truthy :: "token_value \<Rightarrow> bool" where
  "truthy Undefined = False"
| "truthy Null = False"
| "truthy (TokenString s) = (s \<noteq> [])"
| "truthy (TokenObject t) = True"

subsection \<open>Configuration\<close>

text \<open>\<open>process.env.X || ''\<close>: an unset variable and an empty one both give the empty string.\<close>

definition env_or_empty :: "(string \<rightharpoonup> string) \<Rightarrow> string \<Rightarrow> string" where
  "env_or_empty env k = (case env k of None \<Rightarrow> [] | Some v \<Rightarrow> v)"

definition clientId :: "(string \<rightharpoonup> string) \<Rightarrow> string" where
  "clientId env = env_or_empty env ''SPOTIFY_CLIENT_ID''"

definition clientSecret :: "(string \<rightharpoonup> string) \<Rightarrow> string" where
  "clientSecret env = env_or_empty env ''SPOTIFY_CLIENT_SECRET''"

definition redirectUri :: "(string \<rightharpoonup> string) \<Rightarrow> string" where
  "redirectUri env = env_or_empty env ''SPOTIFY_REDIRECT_URI''"

datatype oauth_scope = PlaylistModifyPrivate | PlaylistModifyPublic | UserReadPrivate

datatype sdk_environment = Production

record credentials =
  oAuthClientId :: string
  oAuthClientSecret :: string
  oAuthRedirectUri :: string
  oAuthScopes :: "oauth_scope list"
  oAuthToken :: "token_value option"

record configuration =
  authorizationCodeAuthCredentials :: credentials
  timeout :: nat
  environment :: sdk_environment

text \<open>
  The SDK's client holds its configuration; \<open>withConfiguration\<close> clones the client with
  the given keys overriding the old ones. The program passes the single key
  \<open>authorizationCodeAuthCredentials\<close>.
\<close>

record client =
  client_config :: configuration

definition new_Client :: "configuration \<Rightarrow> client" where
  "new_Client cfg = \<lparr>client_config = cfg\<rparr>"

definition withConfiguration :: "client \<Rightarrow> credentials \<Rightarrow> client" where
  "withConfiguration c creds =
     new_Client ((client_config c)\<lparr>authorizationCodeAuthCredentials := creds\<rparr>)"

subsection \<open>URLs\<close>

text \<open>
  \<open>new URL(s)\<close> is the platform's parser. Its syntactic part (which characters are the
  scheme, the host, the port digits and the query pairs, or that the string is no URL at
  all) is a parameter of the model, the field \<open>parse_URL\<close> of the world. What the
  program reads from the parsed URL is modelled here: the \<open>port\<close> getter, which is the
  empty string when the URL has no port or has the default port of its scheme and the
  port in decimal otherwise, and \<open>searchParams.get\<close>, which gives the first value of a
  name or \<open>null\<close>.
\<close>

record url_parts =
  url_scheme :: string
  url_host :: string
  url_explicit_port :: "nat option"
  url_query :: "(string \<times> string) list"

definition default_port :: "string \<Rightarrow> nat option" where
  "default_port sch =
     (if sch = ''http'' \<or> sch = ''ws'' then Some 80
      else if sch = ''https'' \<or> sch = ''wss'' then Some 443
      else if sch = ''ftp'' then Some 21
      else None)"

definition digit_char :: "nat \<Rightarrow> char" where
  "digit_char d = char_of (48 + d)"

definition digit_val :: "char \<Rightarrow> nat option" where
  "digit_val c =
     (let n = (of_char c :: nat) in if 48 \<le> n \<and> n \<le> 57 then Some (n - 48) else None)"

fun dec_string :: "nat \<Rightarrow> string" where
  "dec_string n =
     (if n < 10 then [digit_char n] else dec_string (n div 10) @ [digit_char (n mod 10)])"

declare dec_string.simps [simp del]

definition url_port :: "url_parts \<Rightarrow> string" where
  "url_port u =
     (case url_explicit_port u of
        None \<Rightarrow> []
      | Some p \<Rightarrow> if default_port (url_scheme u) = Some p then [] else dec_string p)"

definition searchParams_get :: "(string \<times> string) list \<Rightarrow> string \<Rightarrow> string option" where
  "searchParams_get ps k = map_of ps k"

text \<open>
  \<open>Number(s)\<close> on the strings the \<open>port\<close> getter gives: the empty string is 0, a string
  of decimal digits is its value, and anything else is \<open>NaN\<close> (\<open>None\<close>).
\<close>

fun digits_value :: "nat \<Rightarrow> string \<Rightarrow> nat option" where
  "digits_value acc [] = Some acc"
| "digits_value acc (c # cs) =
     (case digit_val c of None \<Rightarrow> None | Some d \<Rightarrow> digits_value (10 * acc + d) cs)"

definition Number_dec :: "string \<Rightarrow> nat option" where
  "Number_dec s = digits_value 0 s"

text \<open>\<open>Number(new URL(redirectUri).port) || 4000\<close>: \<open>NaN\<close> and 0 are falsy.\<close>

definition listen_port :: "url_parts \<Rightarrow> nat" where
  "listen_port u =
     (case Number_dec (url_port u) of
        None \<Rightarrow> 4000
      | Some n \<Rightarrow> if n = 0 then 4000 else n)"

subsection \<open>Requests, effects and the world\<close>

text \<open>
  A request as the handler sees it: \<open>req.headers.host\<close> (\<open>undefined\<close> when the request
  has no Host header), \<open>req.url\<close> (the request target) and the protocol version.
\<close>

datatype http_version = HTTP_1_0 | HTTP_1_1

record http_request =
  req_host :: "string option"
  req_url :: string
  req_httpVersion :: http_version

text \<open>
  An HTTP/1.1 request without a Host header never reaches the handler: the server
  answers it with status 400 by itself.
\<close>

definition missing_host :: "http_request \<Rightarrow> bool" where
  "missing_host req = (req_host req = None \<and> req_httpVersion req = HTTP_1_1)"

definition fullUrl :: "http_request \<Rightarrow> string" where
  "fullUrl req =
     ''http://'' @ (case req_host req of None \<Rightarrow> ''undefined'' | Some h \<Rightarrow> h) @ req_url req"

text \<open>
  A request reaches the server on a new connection, which a closed server refuses, or on
  a connection accepted earlier and kept alive, which \<open>server.close()\<close> leaves open.
\<close>

datatype arrival = NewConnection http_request | KeepAlive http_request

text \<open>
  \<open>Listen port host\<close> is the call \<open>server.listen\<close> with its port and its host argument
  (\<open>None\<close> when the call passes no host). \<open>ServerReplies status\<close> is an answer the
  server gives by itself, without the handler.
\<close>

datatype effect =
    ConsoleLog string
  | OpenBrowser string
  | Listen nat "string option"
  | WriteHead nat "(string \<times> string) list"
  | End string
  | ServerClose
  | FetchToken string
  | WithConfiguration credentials
  | ServerReplies nat

datatype 'a promise = Pending | Resolved 'a | Rejected js_error

text \<open>
  What the outside decides in one run: the environment variables, the decomposition of
  URL strings, the error of binding a port (\<open>None\<close> when the bind succeeds), the
  requests that reach the server while the flow runs, in order, and the two SDK calls
  the flow makes (\<open>fetchToken\<close> returns a value or throws). The dynamic import of the
  module \<open>open\<close> is taken to succeed, and the launch of the browser is
  fire-and-forget: the program does not await the promise that \<open>open.default\<close> returns.

  The server handles all the requests of \<open>arrivals\<close> before the awaiting flow goes on.
  For a request that arrives while the token exchange is pending this changes the place
  of its effects in the trace, which then come before the call of \<open>fetchToken\<close>; the
  result of the flow is the same, since an uncaught exception in a handler ends the
  process at either place.
\<close>

record world =
  process_env :: "string \<rightharpoonup> string"
  parse_URL :: "string \<Rightarrow> url_parts option"
  bind_error :: "nat \<Rightarrow> js_error option"
  arrivals :: "arrival list"
  buildAuthorizationUrl :: "credentials \<Rightarrow> string"
  fetchToken :: "string \<Rightarrow> js_error + token_value"

text \<open>
  \<open>new URL(s)\<close>: the parser's decomposition, refused when the port digits denote a
  number above 65535 (the parser fails on such a port). \<open>None\<close> is the \<open>TypeError\<close>
  the constructor throws.
\<close>

definition new_URL :: "world \<Rightarrow> string \<Rightarrow> url_parts option" where
  "new_URL w s =
     (case parse_URL w s of
        None \<Rightarrow> None
      | Some u \<Rightarrow>
          (case url_explicit_port u of
             None \<Rightarrow> Some u
           | Some p \<Rightarrow> if p \<le> 65535 then Some u else None))"

subsection \<open>The callback listener\<close>

text \<open>
  The state of one run of \<open>getSpotifyAuthCode\<close>: whether the server accepts connections,
  the state of the promise the function returned, every settlement that took effect (in
  order), an exception nobody caught (it ends the process), and the effects so far.
\<close>

record listener =
  listening :: bool
  promise_state :: "string promise"
  outcomes :: "string promise list"
  crashed :: "js_error option"
  trace :: "effect list"

text \<open>
  What \<open>await\<close> on the promise gives the caller: the settlement of the promise, and
  nothing once an uncaught exception has ended the process, also when the promise had
  been settled before (the caller resumes only after the handlers of the requests at
  hand have run).
\<close>

definition result :: "listener \<Rightarrow> string promise" where
  "result s = (case crashed s of None \<Rightarrow> promise_state s | Some e \<Rightarrow> Pending)"

definition emit :: "effect \<Rightarrow> listener \<Rightarrow> listener" where
  "emit e s = s\<lparr>trace := trace s @ [e]\<rparr>"

text \<open>A promise is settled by the first call of \<open>resolve\<close> or \<open>reject\<close>; later calls do nothing.\<close>

definition settle :: "string promise \<Rightarrow> listener \<Rightarrow> listener" where
  "settle v s =
     (if promise_state s = Pending
      then s\<lparr>promise_state := v, outcomes := outcomes s @ [v]\<rparr>
      else s)"

definition resolve :: "string \<Rightarrow> listener \<Rightarrow> listener" where
  "resolve code s = settle (Resolved code) s"

definition reject :: "js_error \<Rightarrow> listener \<Rightarrow> listener" where
  "reject e s = settle (Rejected e) s"

definition server_close :: "listener \<Rightarrow> listener" where
  "server_close s = emit ServerClose (s\<lparr>listening := False\<rparr>)"

definition respond_success :: "string \<Rightarrow> listener \<Rightarrow> listener" where
  "respond_success code s =
     resolve code
       (server_close
          (emit (End ''<h1>Authorization successful! You can close this window.</h1>'')
             (emit (WriteHead 200 [(''Content-Type'', ''text/html'')]) s)))"

definition respond_failure :: "listener \<Rightarrow> listener" where
  "respond_failure s =
     reject (Error ''No code found in callback'')
       (server_close
          (emit (End ''<h1>No code found in the callback.</h1>'')
             (emit (WriteHead 400 [(''Content-Type'', ''text/html'')]) s)))"

text \<open>
  The request handler. \<open>new URL(fullUrl)\<close> throws a \<open>TypeError\<close> on a string that is no
  URL; nothing catches it in an event listener. \<open>if (code)\<close> is false for \<open>null\<close> and
  for the empty string.
\<close>

definition handler :: "world \<Rightarrow> http_request \<Rightarrow> listener \<Rightarrow> listener" where
  "handler w req s =
     (case new_URL w (fullUrl req) of
        None \<Rightarrow> s\<lparr>crashed := Some (TypeError ''Invalid URL'')\<rparr>
      | Some url \<Rightarrow>
          (case searchParams_get (url_query url) ''code'' of
             None \<Rightarrow> respond_failure s
           | Some code \<Rightarrow> if code \<noteq> [] then respond_success code s else respond_failure s))"

text \<open>What the server does with a request it has received.\<close>

definition on_request :: "world \<Rightarrow> http_request \<Rightarrow> listener \<Rightarrow> listener" where
  "on_request w req s =
     (if missing_host req then emit (ServerReplies 400) s else handler w req s)"

text \<open>
  Nothing happens in a process that has ended. A closed server refuses a new
  connection; a request on a kept-alive connection is received all the same.
\<close>

fun deliver :: "world \<Rightarrow> arrival \<Rightarrow> listener \<Rightarrow> listener" where
  "deliver w (NewConnection req) s =
     (if crashed s \<noteq> None then s else if listening s then on_request w req s else s)"
| "deliver w (KeepAlive req) s =
     (if crashed s \<noteq> None then s else on_request w req s)"

fun run_listener :: "world \<Rightarrow> arrival list \<Rightarrow> listener \<Rightarrow> listener" where
  "run_listener w [] s = s"
| "run_listener w (a # as) s = run_listener w as (deliver w a s)"

definition fresh_listener :: "effect list \<Rightarrow> listener" where
  "fresh_listener t =
     \<lparr>listening = False, promise_state = Pending, outcomes = [], crashed = None,
      trace = t\<rparr>"

text \<open>
  \<open>getSpotifyAuthCode\<close>. The browser is opened first. In the promise's executor the
  server is created, the port is read from the redirect URI (a throw in an executor
  rejects the promise) and \<open>server.listen(port, callback)\<close> is called with no host. A
  failed bind is an \<open>error\<close> event on the server, for which the program registers no
  listener: the error is thrown uncaught and the promise stays pending. Once the port
  is bound, the server handles every request that arrives while the flow runs; the
  first settlement of the promise is what the awaiting flow is resumed with.
\<close>

definition getSpotifyAuthCode :: "world \<Rightarrow> string \<Rightarrow> string \<Rightarrow> listener" where
  "getSpotifyAuthCode w authUrl redirect =
     (let s0 = fresh_listener [OpenBrowser authUrl] in
      case new_URL w redirect of
        None \<Rightarrow> reject (TypeError ''Invalid URL'') s0
      | Some u \<Rightarrow>
          (let port = listen_port u; s1 = emit (Listen port None) s0 in
           case bind_error w port of
             Some e \<Rightarrow> s1\<lparr>crashed := Some e\<rparr>
           | None \<Rightarrow>
               run_listener w (arrivals w)
                 (emit (ConsoleLog (''Listening for Spotify redirect on '' @ redirect))
                    (s1\<lparr>listening := True\<rparr>))))"

subsection \<open>The flow\<close>

datatype flow_result =
    Returned client
  | Thrown js_error
  | Crashed js_error
  | Hangs

definition initial_credentials :: "(string \<rightharpoonup> string) \<Rightarrow> credentials" where
  "initial_credentials env =
     \<lparr>oAuthClientId = clientId env,
      oAuthClientSecret = clientSecret env,
      oAuthRedirectUri = redirectUri env,
      oAuthScopes = [PlaylistModifyPrivate, PlaylistModifyPublic, UserReadPrivate],
      oAuthToken = None\<rparr>"

definition initial_config :: "(string \<rightharpoonup> string) \<Rightarrow> configuration" where
  "initial_config env =
     \<lparr>authorizationCodeAuthCredentials = initial_credentials env,
      timeout = 0,
      environment = Production\<rparr>"

definition initializeSpotifyClientWithOAuth :: "world \<Rightarrow> effect list \<times> flow_result" where
  "initializeSpotifyClientWithOAuth w =
     (let config = initial_config (process_env w);
          client = new_Client config;
          authUrl = buildAuthorizationUrl w (authorizationCodeAuthCredentials config);
          s = getSpotifyAuthCode w authUrl (redirectUri (process_env w));
          t1 = ConsoleLog ''OAuth: Starting Spotify OAuth flow...'' # trace s
      in case result s of
           Rejected e \<Rightarrow> (t1, Thrown e)
         | Pending \<Rightarrow> (t1, case crashed s of Some e \<Rightarrow> Crashed e | None \<Rightarrow> Hangs)
         | Resolved authCode \<Rightarrow>
             (let t2 = t1 @
                    [ConsoleLog ''OAuth: Received authorization code. Fetching access token...'',
                     FetchToken authCode]
              in case fetchToken w authCode of
                   Inl e \<Rightarrow> (t2, Thrown e)
                 | Inr token \<Rightarrow>
                     if \<not> truthy token then (t2, Thrown (Error ''Failed to fetch token!''))
                     else
                       (let creds = (authorizationCodeAuthCredentials config)
                                      \<lparr>oAuthToken := Some token\<rparr>
                        in (t2 @
                              [ConsoleLog
                                 ''OAuth: Access token obtained. Creating new client with the token...'',
                               WithConfiguration creds],
                            Returned (withConfiguration client creds)))))"

subsection \<open>Reading the trace\<close>

text \<open>The calls of \<open>server.listen\<close> in a trace, with their port and host arguments.\<close>

fun listen_calls :: "effect list \<Rightarrow> (nat \<times> string option) list" where
  "listen_calls [] = []"
| "listen_calls (Listen p h # es) = (p, h) # listen_calls es"
| "listen_calls (e # es) = listen_calls es"

text \<open>
  \<open>server.listen\<close> with no host listens on the unspecified address (\<open>::\<close>, or
  \<open>0.0.0.0\<close> without IPv6), which is every interface of the machine; only a loopback
  host argument restricts it to the loopback interface.
\<close>

definition loopback_only :: "string option \<Rightarrow> bool" where
  "loopback_only h =
     (case h of
        None \<Rightarrow> False
      | Some a \<Rightarrow> a = ''localhost'' \<or> a = ''127.0.0.1'' \<or> a = ''::1'')"

text \<open>The effects of the listener's own code: neither a token fetch nor a new client.\<close>

fun listener_effect :: "effect \<Rightarrow> bool" where
  "listener_effect (FetchToken c) = False"
| "listener_effect (WithConfiguration c) = False"
| "listener_effect e = True"

subsection \<open>Invariants of the listener state\<close>

text \<open>The settlements that took effect are none while the promise is pending, and its value after.\<close>

definition one_shot :: "listener \<Rightarrow> bool" where
  "one_shot s = (outcomes s = (if promise_state s = Pending then [] else [promise_state s]))"

text \<open>Where the promise is settled, the server no longer listens.\<close>

definition settled_closed :: "listener \<Rightarrow> bool" where
  "settled_closed s = (promise_state s = Pending \<or> \<not> listening s)"

subsection \<open>A concrete world\<close>

text \<open>
  A world for evaluating the flow: the redirect URI of the environment, a parser that
  knows the handful of URLs below, and an SDK whose token endpoint accepts the code
  \<open>ABC123\<close>.
\<close>

definition demo_env :: "string \<Rightarrow> (string \<rightharpoonup> string)" where
  "demo_env redirect =
     map_of [(''SPOTIFY_CLIENT_ID'', ''cid''),
             (''SPOTIFY_CLIENT_SECRET'', ''shh''),
             (''SPOTIFY_REDIRECT_URI'', redirect)]"

definition demo_url :: "nat option \<Rightarrow> (string \<times> string) list \<Rightarrow> url_parts" where
  "demo_url p q =
     \<lparr>url_scheme = ''http'', url_host = ''localhost'', url_explicit_port = p, url_query = q\<rparr>"

definition demo_parse :: "string \<Rightarrow> url_parts option" where
  "demo_parse =
     map_of
       [(''http://localhost:4000/callback'', demo_url (Some 4000) []),
        (''http://localhost:4000/callback?code=ABC123'',
           demo_url (Some 4000) [(''code'', ''ABC123'')]),
        (''http://localhost:4000/callback?error=access_denied'',
           demo_url (Some 4000) [(''error'', ''access_denied'')]),
        (''http://localhost:4000/favicon.ico'', demo_url (Some 4000) []),
        (''http://localhost:80/callback'', demo_url (Some 80) []),
        (''http://localhost:8080/callback'', demo_url (Some 8080) []),
        (''http://localhost:4000?x=/callback?code=ABC123'',
           demo_url (Some 4000) [(''x'', ''/callback?code=ABC123'')]),
        (''http://localhost:4000?code=HOSTQ&x=/callback'',
           demo_url (Some 4000) [(''code'', ''HOSTQ''), (''x'', ''/callback'')]),
        (''http://localhost/callback'', demo_url None [])]"

definition demo_authUrl :: "credentials \<Rightarrow> string" where
  "demo_authUrl creds = ''https://accounts.spotify.com/authorize?client_id='' @ oAuthClientId creds"

definition demo_world ::
    "string \<Rightarrow> (nat \<Rightarrow> js_error option) \<Rightarrow> arrival list \<Rightarrow> token_value \<Rightarrow> world" where
  "demo_world redirect bind reqs token =
     \<lparr>process_env = demo_env redirect,
      parse_URL = demo_parse,
      bind_error = bind,
      arrivals = reqs,
      buildAuthorizationUrl = demo_authUrl,
      fetchToken =
        (\<lambda>code. if code = ''ABC123'' then Inr token else Inl (OAuthProviderError ''invalid_grant''))\<rparr>"

definition demo_request :: "string \<Rightarrow> string \<Rightarrow> http_request" where
  "demo_request h target =
     \<lparr>req_host = Some h, req_url = target, req_httpVersion = HTTP_1_1\<rparr>"

definition code_request :: http_request where
  "code_request = demo_request ''localhost:4000'' ''/callback?code=ABC123''"

definition denied_request :: http_request where
  "denied_request = demo_request ''localhost:4000'' ''/callback?error=access_denied''"

definition favicon_request :: http_request where
  "favicon_request = demo_request ''localhost:4000'' ''/favicon.ico''"

text \<open>Requests whose Host header carries a query of its own, or is no host at all.\<close>

definition hidden_code_request :: http_request where
  "hidden_code_request = demo_request ''localhost:4000?x='' ''/callback?code=ABC123''"

definition host_code_request :: http_request where
  "host_code_request = demo_request ''localhost:4000?code=HOSTQ&x='' ''/callback''"

definition bad_host_request :: http_request where
  "bad_host_request = demo_request ''exa mple'' ''/callback?code=ABC123''"

definition demo_token :: token_value where
  "demo_token = TokenObject \<lparr>accessToken = ''BQDtoken'', tokenType = ''Bearer''\<rparr>"

text \<open>The state in which the listener starts to wait, once the port is bound.\<close>

definition bound_listener :: "string \<Rightarrow> string \<Rightarrow> nat \<Rightarrow> listener" where
  "bound_listener authUrl redirect port =
     \<lparr>listening = True, promise_state = Pending, outcomes = [], crashed = None,
      trace = [OpenBrowser authUrl, Listen port None,
               ConsoleLog (''Listening for Spotify redirect on '' @ redirect)]\<rparr>"

text \<open>The listener run that the flow awaits.\<close>

definition flow_listener :: "world \<Rightarrow> listener" where
  "flow_listener w =
     getSpotifyAuthCode w
       (buildAuthorizationUrl w (initial_credentials (process_env w)))
       (redirectUri (process_env w))"

text \<open>Concrete runs: a bind that succeeds or fails, and the requests that arrive.\<close>

definition bind_ok :: "nat \<Rightarrow> js_error option" where
  "bind_ok port = None"

definition bind_fails :: "nat \<Rightarrow> js_error option" where
  "bind_fails port = Some (ListenError ''EADDRINUSE'')"

definition world_success :: world where
  "world_success =
     demo_world ''http://localhost:4000/callback'' bind_ok
       [NewConnection code_request, KeepAlive favicon_request] demo_token"

definition world_denied :: world where
  "world_denied =
     demo_world ''http://localhost:4000/callback'' bind_ok
       [NewConnection denied_request] demo_token"

definition world_empty_token :: world where
  "world_empty_token =
     demo_world ''http://localhost:4000/callback'' bind_ok
       [NewConnection code_request] (TokenString [])"

definition world_bind_fails :: world where
  "world_bind_fails =
     demo_world ''http://localhost:4000/callback'' bind_fails [] demo_token"




definition world_empty_access_token :: world where
  "world_empty_access_token =
     demo_world ''http://localhost:4000/callback'' bind_ok
       [NewConnection code_request]
       (TokenObject \<lparr>accessToken = [], tokenType = ''Bearer''\<rparr>)"

definition world_no_redirect :: world where
  "world_no_redirect = demo_world [] bind_ok [] demo_token"

definition world_port_8080 :: world where
  "world_port_8080 = demo_world ''http://localhost:8080/callback'' bind_ok [] demo_token"

definition world_port_80 :: world where
  "world_port_80 = demo_world ''http://localhost:80/callback'' bind_ok [] demo_token"

definition world_no_port :: world where
  "world_no_port = demo_world ''http://localhost/callback'' bind_ok [] demo_token"

definition demo_authUrl_text :: string where
  "demo_authUrl_text = ''https://accounts.spotify.com/authorize?client_id=cid''"

definition listening_text :: string where
  "listening_text = ''Listening for Spotify redirect on http://localhost:4000/callback''"

section \<open>Properties\<close>

subsection \<open>Decimal port strings\<close>

lemma digit_val_digit_char: "d < 10 \<Longrightarrow> digit_val (digit_char d) = Some d"
  by (simp add: digit_val_def digit_char_def Let_def)

lemma digits_value_snoc:
  "digits_value acc (cs @ [c]) =
     (case digits_value acc cs of
        None \<Rightarrow> None
      | Some v \<Rightarrow> (case digit_val c of None \<Rightarrow> None | Some d \<Rightarrow> Some (10 * v + d)))"
  by (induction cs arbitrary: acc) (auto split: option.splits)

lemma digits_value_dec_string: "digits_value 0 (dec_string n) = Some n"
proof (induction n rule: dec_string.induct)
  case (1 n)
  show ?case
  proof (cases "n < 10")
    case True
    then show ?thesis
      by (subst dec_string.simps) (simp add: digit_val_digit_char)
  next
    case False
    then have ih: "digits_value 0 (dec_string (n div 10)) = Some (n div 10)"
      using "1" by simp
    have "n mod 10 < 10" by simp
    then have dv: "digit_val (digit_char (n mod 10)) = Some (n mod 10)"
      by (rule digit_val_digit_char)
    show ?thesis
      using False by (subst dec_string.simps) (simp add: digits_value_snoc ih dv)
  qed
qed

lemma Number_dec_dec_string: "Number_dec (dec_string n) = Some n"
  by (simp add: Number_dec_def digits_value_dec_string)

lemma listen_port_eq:
  "listen_port u =
     (case url_explicit_port u of
        None \<Rightarrow> 4000
      | Some p \<Rightarrow> if default_port (url_scheme u) = Some p \<or> p = 0 then 4000 else p)"
proof (cases "url_explicit_port u")
  case None
  then show ?thesis by (simp add: listen_port_def url_port_def Number_dec_def)
next
  case (Some p)
  show ?thesis
  proof (cases "default_port (url_scheme u) = Some p")
    case True
    with Some show ?thesis by (simp add: listen_port_def url_port_def Number_dec_def)
  next
    case False
    with Some show ?thesis by (simp add: listen_port_def url_port_def Number_dec_dec_string)
  qed
qed

lemma listen_port_explicit:
  assumes "url_explicit_port u = Some p" and "p \<noteq> 0" and "default_port (url_scheme u) \<noteq> Some p"
  shows "listen_port u = p"
  using assms by (simp add: listen_port_eq)

lemma new_URL_port_range:
  assumes "new_URL w s = Some u"
  shows "0 < listen_port u \<and> listen_port u \<le> 65535"
  using assms
  by (auto simp: new_URL_def listen_port_eq split: option.splits if_splits)

subsection \<open>The listener state\<close>

lemma settle_fields [simp]:
  "listening (settle v s) = listening s"
  "crashed (settle v s) = crashed s"
  "trace (settle v s) = trace s"
  by (simp_all add: settle_def)

lemma settle_promise:
  "promise_state (settle v s) = (if promise_state s = Pending then v else promise_state s)"
  by (simp add: settle_def)

lemma settle_outcomes:
  "outcomes (settle v s) = (if promise_state s = Pending then outcomes s @ [v] else outcomes s)"
  by (simp add: settle_def)

lemma emit_fields [simp]:
  "listening (emit e s) = listening s"
  "crashed (emit e s) = crashed s"
  "promise_state (emit e s) = promise_state s"
  "outcomes (emit e s) = outcomes s"
  "trace (emit e s) = trace s @ [e]"
  by (simp_all add: emit_def)

lemma server_close_fields [simp]:
  "listening (server_close s) = False"
  "crashed (server_close s) = crashed s"
  "promise_state (server_close s) = promise_state s"
  "outcomes (server_close s) = outcomes s"
  "trace (server_close s) = trace s @ [ServerClose]"
  by (simp_all add: server_close_def)

lemma respond_success_fields:
  "listening (respond_success c s) = False"
  "crashed (respond_success c s) = crashed s"
  "promise_state (respond_success c s) =
     (if promise_state s = Pending then Resolved c else promise_state s)"
  "outcomes (respond_success c s) =
     (if promise_state s = Pending then outcomes s @ [Resolved c] else outcomes s)"
  "trace (respond_success c s) =
     trace s @
       [WriteHead 200 [(''Content-Type'', ''text/html'')],
        End ''<h1>Authorization successful! You can close this window.</h1>'',
        ServerClose]"
  by (simp_all add: respond_success_def resolve_def settle_promise settle_outcomes)

lemma respond_failure_fields:
  "listening (respond_failure s) = False"
  "crashed (respond_failure s) = crashed s"
  "promise_state (respond_failure s) =
     (if promise_state s = Pending then Rejected (Error ''No code found in callback'')
      else promise_state s)"
  "outcomes (respond_failure s) =
     (if promise_state s = Pending
      then outcomes s @ [Rejected (Error ''No code found in callback'')]
      else outcomes s)"
  "trace (respond_failure s) =
     trace s @
       [WriteHead 400 [(''Content-Type'', ''text/html'')],
        End ''<h1>No code found in the callback.</h1>'',
        ServerClose]"
  by (simp_all add: respond_failure_def reject_def settle_promise settle_outcomes)

lemmas respond_fields = respond_success_fields respond_failure_fields

lemma fresh_listener_fields [simp]:
  "listening (fresh_listener t) = False"
  "promise_state (fresh_listener t) = Pending"
  "outcomes (fresh_listener t) = []"
  "crashed (fresh_listener t) = None"
  "trace (fresh_listener t) = t"
  by (simp_all add: fresh_listener_def)

lemma bound_listener_fields [simp]:
  "listening (bound_listener authUrl redirect port) = True"
  "promise_state (bound_listener authUrl redirect port) = Pending"
  "outcomes (bound_listener authUrl redirect port) = []"
  "crashed (bound_listener authUrl redirect port) = None"
  "trace (bound_listener authUrl redirect port) =
     [OpenBrowser authUrl, Listen port None,
      ConsoleLog (''Listening for Spotify redirect on '' @ redirect)]"
  by (simp_all add: bound_listener_def)

lemma result_alive: "crashed s = None \<Longrightarrow> result s = promise_state s"
  by (simp add: result_def)

lemma result_crashed: "crashed s = Some e \<Longrightarrow> result s = Pending"
  by (simp add: result_def)

lemma result_settled:
  "result s \<noteq> Pending \<Longrightarrow> crashed s = None \<and> promise_state s = result s"
  by (simp add: result_def split: option.splits)

subsection \<open>One request\<close>

lemma handler_keeps_settled:
  "promise_state s \<noteq> Pending \<Longrightarrow>
     promise_state (handler w req s) = promise_state s \<and>
     outcomes (handler w req s) = outcomes s"
  by (simp add: handler_def respond_fields split: option.splits)

lemma handler_one_shot: "one_shot s \<Longrightarrow> one_shot (handler w req s)"
  by (auto simp: one_shot_def handler_def respond_fields split: option.splits if_splits)

lemma handler_settled_closed: "settled_closed s \<Longrightarrow> settled_closed (handler w req s)"
  by (auto simp: settled_closed_def handler_def respond_fields split: option.splits)

lemma handler_never_listens: "\<not> listening s \<Longrightarrow> \<not> listening (handler w req s)"
  by (simp add: handler_def respond_fields split: option.splits)

lemma handler_trace_extends: "\<exists>ext. trace (handler w req s) = trace s @ ext"
  by (simp add: handler_def respond_fields split: option.splits)

lemma on_request_keeps_settled:
  "promise_state s \<noteq> Pending \<Longrightarrow>
     promise_state (on_request w req s) = promise_state s \<and>
     outcomes (on_request w req s) = outcomes s"
  by (simp add: on_request_def handler_keeps_settled)

lemma on_request_one_shot: "one_shot s \<Longrightarrow> one_shot (on_request w req s)"
  by (simp add: on_request_def handler_one_shot) (simp add: one_shot_def)

lemma on_request_settled_closed: "settled_closed s \<Longrightarrow> settled_closed (on_request w req s)"
  by (simp add: on_request_def handler_settled_closed) (simp add: settled_closed_def)

lemma on_request_never_listens: "\<not> listening s \<Longrightarrow> \<not> listening (on_request w req s)"
  by (simp add: on_request_def handler_never_listens)

lemma on_request_trace_extends: "\<exists>ext. trace (on_request w req s) = trace s @ ext"
  by (simp add: on_request_def handler_trace_extends)

lemma deliver_keeps_settled:
  "promise_state s \<noteq> Pending \<Longrightarrow>
     promise_state (deliver w a s) = promise_state s \<and> outcomes (deliver w a s) = outcomes s"
  by (cases a) (simp_all add: on_request_keeps_settled)

lemma deliver_one_shot: "one_shot s \<Longrightarrow> one_shot (deliver w a s)"
  by (cases a) (simp_all add: on_request_one_shot)

lemma deliver_settled_closed: "settled_closed s \<Longrightarrow> settled_closed (deliver w a s)"
  by (cases a) (simp_all add: on_request_settled_closed)

lemma deliver_never_listens: "\<not> listening s \<Longrightarrow> \<not> listening (deliver w a s)"
  by (cases a) (simp_all add: on_request_never_listens)

lemma deliver_trace_extends: "\<exists>ext. trace (deliver w a s) = trace s @ ext"
  by (cases a) (simp_all add: on_request_trace_extends)

lemma deliver_refused: "\<not> listening s \<Longrightarrow> deliver w (NewConnection req) s = s"
  by simp

subsection \<open>Many requests\<close>

lemma run_listener_keeps_settled:
  "promise_state s \<noteq> Pending \<Longrightarrow>
     promise_state (run_listener w as s) = promise_state s \<and>
     outcomes (run_listener w as s) = outcomes s"
proof (induction as arbitrary: s)
  case Nil
  then show ?case by simp
next
  case (Cons a as)
  from Cons.prems have step:
    "promise_state (deliver w a s) = promise_state s" "outcomes (deliver w a s) = outcomes s"
    by (simp_all add: deliver_keeps_settled)
  with Cons.prems have "promise_state (deliver w a s) \<noteq> Pending" by simp
  from Cons.IH [OF this] step show ?case by simp
qed

lemma run_listener_one_shot: "one_shot s \<Longrightarrow> one_shot (run_listener w as s)"
  by (induction as arbitrary: s) (simp_all add: deliver_one_shot)

lemma run_listener_settled_closed: "settled_closed s \<Longrightarrow> settled_closed (run_listener w as s)"
  by (induction as arbitrary: s) (simp_all add: deliver_settled_closed)

lemma run_listener_never_listens: "\<not> listening s \<Longrightarrow> \<not> listening (run_listener w as s)"
  by (induction as arbitrary: s) (simp_all add: deliver_never_listens)

lemma run_listener_trace_extends: "\<exists>ext. trace (run_listener w as s) = trace s @ ext"
proof (induction as arbitrary: s)
  case Nil
  show ?case by simp
next
  case (Cons a as)
  obtain e1 where e1: "trace (deliver w a s) = trace s @ e1"
    using deliver_trace_extends by blast
  obtain e2 where "trace (run_listener w as (deliver w a s)) = trace (deliver w a s) @ e2"
    using Cons.IH by blast
  with e1 show ?case by simp
qed

lemma one_shot_length: "one_shot s \<Longrightarrow> length (outcomes s) \<le> 1"
  by (simp add: one_shot_def)

subsection \<open>The run of \<open>getSpotifyAuthCode\<close>\<close>

lemma getSpotifyAuthCode_bound:
  "new_URL w redirect = Some u \<Longrightarrow> bind_error w (listen_port u) = None \<Longrightarrow>
     getSpotifyAuthCode w authUrl redirect =
       run_listener w (arrivals w) (bound_listener authUrl redirect (listen_port u))"
  by (simp add: getSpotifyAuthCode_def Let_def bound_listener_def fresh_listener_def emit_def)

lemma getSpotifyAuthCode_bind_failed:
  "new_URL w redirect = Some u \<Longrightarrow> bind_error w (listen_port u) = Some e \<Longrightarrow>
     getSpotifyAuthCode w authUrl redirect =
       \<lparr>listening = False, promise_state = Pending, outcomes = [], crashed = Some e,
        trace = [OpenBrowser authUrl, Listen (listen_port u) None]\<rparr>"
  by (simp add: getSpotifyAuthCode_def Let_def fresh_listener_def emit_def)

lemma getSpotifyAuthCode_no_URL:
  "new_URL w redirect = None \<Longrightarrow>
     getSpotifyAuthCode w authUrl redirect =
       \<lparr>listening = False, promise_state = Rejected (TypeError ''Invalid URL''),
        outcomes = [Rejected (TypeError ''Invalid URL'')], crashed = None,
        trace = [OpenBrowser authUrl]\<rparr>"
  by (simp add: getSpotifyAuthCode_def Let_def fresh_listener_def reject_def settle_def)

text \<open>
  An invariant of the listener holds after \<open>getSpotifyAuthCode\<close> when it holds of the three
  states the function can start from and every request preserves it.
\<close>

lemma getSpotifyAuthCode_cases:
  assumes "\<And>u. new_URL w redirect = Some u \<Longrightarrow> bind_error w (listen_port u) = None \<Longrightarrow>
              P (run_listener w (arrivals w) (bound_listener authUrl redirect (listen_port u)))"
      and "\<And>u e. new_URL w redirect = Some u \<Longrightarrow> bind_error w (listen_port u) = Some e \<Longrightarrow>
              P \<lparr>listening = False, promise_state = Pending, outcomes = [], crashed = Some e,
                 trace = [OpenBrowser authUrl, Listen (listen_port u) None]\<rparr>"
      and "new_URL w redirect = None \<Longrightarrow>
              P \<lparr>listening = False, promise_state = Rejected (TypeError ''Invalid URL''),
                 outcomes = [Rejected (TypeError ''Invalid URL'')], crashed = None,
                 trace = [OpenBrowser authUrl]\<rparr>"
  shows "P (getSpotifyAuthCode w authUrl redirect)"
proof (cases "new_URL w redirect")
  case None
  with assms(3) show ?thesis by (simp add: getSpotifyAuthCode_no_URL)
next
  case (Some u)
  show ?thesis
  proof (cases "bind_error w (listen_port u)")
    case None
    with Some assms(1) show ?thesis by (simp add: getSpotifyAuthCode_bound)
  next
    case (Some e)
    with \<open>new_URL w redirect = Some u\<close> assms(2) show ?thesis
      by (simp add: getSpotifyAuthCode_bind_failed)
  qed
qed

lemma getSpotifyAuthCode_one_shot: "one_shot (getSpotifyAuthCode w authUrl redirect)"
proof (rule getSpotifyAuthCode_cases)
  fix u
  have "one_shot (bound_listener authUrl redirect (listen_port u))"
    by (simp add: one_shot_def)
  then show "one_shot (run_listener w (arrivals w)
                (bound_listener authUrl redirect (listen_port u)))"
    by (rule run_listener_one_shot)
qed (simp_all add: one_shot_def)

lemma getSpotifyAuthCode_settled_closed: "settled_closed (getSpotifyAuthCode w authUrl redirect)"
proof (rule getSpotifyAuthCode_cases)
  fix u
  have "settled_closed (bound_listener authUrl redirect (listen_port u))"
    by (simp add: settled_closed_def)
  then show "settled_closed (run_listener w (arrivals w)
                (bound_listener authUrl redirect (listen_port u)))"
    by (rule run_listener_settled_closed)
qed (simp_all add: settled_closed_def)

subsection \<open>Traces of the listener\<close>

lemma listen_calls_append: "listen_calls (xs @ ys) = listen_calls xs @ listen_calls ys"
  by (induction xs rule: listen_calls.induct) simp_all

lemma handler_listen_calls: "listen_calls (trace (handler w req s)) = listen_calls (trace s)"
  by (simp add: handler_def respond_fields listen_calls_append split: option.splits)

lemma on_request_listen_calls:
  "listen_calls (trace (on_request w req s)) = listen_calls (trace s)"
  by (simp add: on_request_def handler_listen_calls listen_calls_append)

lemma deliver_listen_calls: "listen_calls (trace (deliver w a s)) = listen_calls (trace s)"
  by (cases a) (simp_all add: on_request_listen_calls)

lemma run_listener_listen_calls:
  "listen_calls (trace (run_listener w as s)) = listen_calls (trace s)"
  by (induction as arbitrary: s) (simp_all add: deliver_listen_calls)

lemma getSpotifyAuthCode_listen_calls:
  assumes "new_URL w redirect = Some u"
  shows "listen_calls (trace (getSpotifyAuthCode w authUrl redirect)) = [(listen_port u, None)]"
proof (cases "bind_error w (listen_port u)")
  case None
  with assms show ?thesis
    by (simp add: getSpotifyAuthCode_bound run_listener_listen_calls)
next
  case (Some e)
  with assms show ?thesis by (simp add: getSpotifyAuthCode_bind_failed)
qed

lemma handler_listener_effects:
  "list_all listener_effect (trace s) \<Longrightarrow> list_all listener_effect (trace (handler w req s))"
  by (simp add: handler_def respond_fields split: option.splits)

lemma on_request_listener_effects:
  "list_all listener_effect (trace s) \<Longrightarrow>
     list_all listener_effect (trace (on_request w req s))"
  by (simp add: on_request_def handler_listener_effects)

lemma deliver_listener_effects:
  "list_all listener_effect (trace s) \<Longrightarrow> list_all listener_effect (trace (deliver w a s))"
  by (cases a) (simp_all add: on_request_listener_effects)

lemma run_listener_listener_effects:
  "list_all listener_effect (trace s) \<Longrightarrow>
     list_all listener_effect (trace (run_listener w as s))"
  by (induction as arbitrary: s) (simp_all add: deliver_listener_effects)

lemma getSpotifyAuthCode_listener_effects:
  "list_all listener_effect (trace (getSpotifyAuthCode w authUrl redirect))"
proof (rule getSpotifyAuthCode_cases)
  fix u
  have "list_all listener_effect (trace (bound_listener authUrl redirect (listen_port u)))"
    by simp
  then show "list_all listener_effect
               (trace (run_listener w (arrivals w)
                         (bound_listener authUrl redirect (listen_port u))))"
    by (rule run_listener_listener_effects)
qed simp_all


lemma listener_trace_no_WithConfiguration:
  "WithConfiguration c \<notin> set (trace (getSpotifyAuthCode w authUrl redirect))"
  using getSpotifyAuthCode_listener_effects [of w authUrl redirect]
  by (auto simp: list_all_iff)

text \<open>The browser is opened first; when the redirect URI parses, \<open>listen\<close> is the next effect.\<close>

lemma getSpotifyAuthCode_opens_browser_first:
  "\<exists>rest. trace (getSpotifyAuthCode w authUrl redirect) = OpenBrowser authUrl # rest"
proof (rule getSpotifyAuthCode_cases)
  fix u
  obtain ext where
    "trace (run_listener w (arrivals w) (bound_listener authUrl redirect (listen_port u))) =
       trace (bound_listener authUrl redirect (listen_port u)) @ ext"
    using run_listener_trace_extends by blast
  then show "\<exists>rest. trace (run_listener w (arrivals w)
                (bound_listener authUrl redirect (listen_port u))) = OpenBrowser authUrl # rest"
    by simp
qed simp_all

lemma getSpotifyAuthCode_listen_follows:
  assumes "new_URL w redirect = Some u"
  shows "\<exists>rest. trace (getSpotifyAuthCode w authUrl redirect) =
           OpenBrowser authUrl # Listen (listen_port u) None # rest"
proof (cases "bind_error w (listen_port u)")
  case None
  obtain ext where
    "trace (run_listener w (arrivals w) (bound_listener authUrl redirect (listen_port u))) =
       trace (bound_listener authUrl redirect (listen_port u)) @ ext"
    using run_listener_trace_extends by blast
  with assms None show ?thesis by (simp add: getSpotifyAuthCode_bound)
next
  case (Some e)
  with assms show ?thesis by (simp add: getSpotifyAuthCode_bind_failed)
qed

subsection \<open>The first request\<close>

lemma getSpotifyAuthCode_first_request:
  assumes "new_URL w redirect = Some ru"
      and "bind_error w (listen_port ru) = None"
      and "arrivals w = NewConnection req # rest"
      and "\<not> missing_host req"
  shows "getSpotifyAuthCode w authUrl redirect =
           run_listener w rest (handler w req (bound_listener authUrl redirect (listen_port ru)))"
  using assms by (simp add: getSpotifyAuthCode_bound on_request_def)



lemma handler_empty_code:
  assumes "new_URL w (fullUrl req) = Some u"
      and "searchParams_get (url_query u) ''code'' = Some []"
  shows "handler w req s = respond_failure s"
  using assms by (simp add: handler_def)

subsection \<open>The flow, by what the await gives\<close>

lemma flow_resolved_token:
  assumes "result (flow_listener w) = Resolved code"
      and "fetchToken w code = Inr token"
      and "truthy token"
  shows "initializeSpotifyClientWithOAuth w =
           (ConsoleLog ''OAuth: Starting Spotify OAuth flow...'' # trace (flow_listener w) @
              [ConsoleLog ''OAuth: Received authorization code. Fetching access token...'',
               FetchToken code,
               ConsoleLog ''OAuth: Access token obtained. Creating new client with the token...'',
               WithConfiguration ((initial_credentials (process_env w))\<lparr>oAuthToken := Some token\<rparr>)],
            Returned (withConfiguration (new_Client (initial_config (process_env w)))
                        ((initial_credentials (process_env w))\<lparr>oAuthToken := Some token\<rparr>)))"
  using assms
  by (simp add: initializeSpotifyClientWithOAuth_def flow_listener_def Let_def initial_config_def)

lemma flow_resolved_no_token:
  assumes "result (flow_listener w) = Resolved code"
      and "fetchToken w code = Inr token"
      and "\<not> truthy token"
  shows "initializeSpotifyClientWithOAuth w =
           (ConsoleLog ''OAuth: Starting Spotify OAuth flow...'' # trace (flow_listener w) @
              [ConsoleLog ''OAuth: Received authorization code. Fetching access token...'',
               FetchToken code],
            Thrown (Error ''Failed to fetch token!''))"
  using assms
  by (simp add: initializeSpotifyClientWithOAuth_def flow_listener_def Let_def initial_config_def)


lemma flow_rejected:
  assumes "result (flow_listener w) = Rejected e"
  shows "initializeSpotifyClientWithOAuth w =
           (ConsoleLog ''OAuth: Starting Spotify OAuth flow...'' # trace (flow_listener w),
            Thrown e)"
  using assms
  by (simp add: initializeSpotifyClientWithOAuth_def flow_listener_def Let_def initial_config_def)

lemma flow_crashed:
  assumes "result (flow_listener w) = Pending" and "crashed (flow_listener w) = Some e"
  shows "initializeSpotifyClientWithOAuth w =
           (ConsoleLog ''OAuth: Starting Spotify OAuth flow...'' # trace (flow_listener w),
            Crashed e)"
  using assms
  by (simp add: initializeSpotifyClientWithOAuth_def flow_listener_def Let_def initial_config_def)

lemma flow_returned_cases:
  assumes "snd (initializeSpotifyClientWithOAuth w) = Returned session"
  shows "\<exists>token. session =
           withConfiguration (new_Client (initial_config (process_env w)))
             ((initial_credentials (process_env w))\<lparr>oAuthToken := Some token\<rparr>)"
  using assms
  by (auto simp: initializeSpotifyClientWithOAuth_def Let_def initial_config_def
      split: promise.splits sum.splits option.splits if_splits)


subsection \<open>The concrete world\<close>

lemma demo_redirect [simp]: "redirectUri (demo_env r) = r"
  by (simp add: redirectUri_def env_or_empty_def demo_env_def)

lemma demo_listen_port_4000: "listen_port (demo_url (Some 4000) q) = 4000"
  by (simp add: listen_port_eq demo_url_def default_port_def)

lemmas demo_defs =
  demo_world_def demo_env_def demo_parse_def demo_url_def demo_authUrl_def demo_request_def
  code_request_def denied_request_def favicon_request_def hidden_code_request_def
  host_code_request_def bad_host_request_def demo_token_def
  bind_ok_def bind_fails_def demo_authUrl_text_def listening_text_def

lemmas flow_defs =
  flow_listener_def initial_credentials_def clientId_def clientSecret_def
  getSpotifyAuthCode_def on_request_def missing_host_def handler_def
  respond_success_def respond_failure_def resolve_def
  reject_def settle_def server_close_def emit_def fresh_listener_def fullUrl_def
  searchParams_get_def redirectUri_def env_or_empty_def listen_port_eq default_port_def
  new_URL_def

lemma flow_listener_success:
  "flow_listener world_success =
     \<lparr>listening = False, promise_state = Resolved ''ABC123'',
      outcomes = [Resolved ''ABC123''], crashed = None,
      trace =
        [OpenBrowser demo_authUrl_text, Listen 4000 None, ConsoleLog listening_text,
         WriteHead 200 [(''Content-Type'', ''text/html'')],
         End ''<h1>Authorization successful! You can close this window.</h1>'',
         ServerClose,
         WriteHead 400 [(''Content-Type'', ''text/html'')],
         End ''<h1>No code found in the callback.</h1>'',
         ServerClose]\<rparr>"
  by (simp add: world_success_def demo_defs flow_defs Let_def)

lemma flow_listener_denied:
  "flow_listener world_denied =
     \<lparr>listening = False, promise_state = Rejected (Error ''No code found in callback''),
      outcomes = [Rejected (Error ''No code found in callback'')], crashed = None,
      trace =
        [OpenBrowser demo_authUrl_text, Listen 4000 None, ConsoleLog listening_text,
         WriteHead 400 [(''Content-Type'', ''text/html'')],
         End ''<h1>No code found in the callback.</h1>'',
         ServerClose]\<rparr>"
  by (simp add: world_denied_def demo_defs flow_defs Let_def)

lemma flow_listener_empty_token:
  "flow_listener world_empty_token =
     \<lparr>listening = False, promise_state = Resolved ''ABC123'',
      outcomes = [Resolved ''ABC123''], crashed = None,
      trace =
        [OpenBrowser demo_authUrl_text, Listen 4000 None, ConsoleLog listening_text,
         WriteHead 200 [(''Content-Type'', ''text/html'')],
         End ''<h1>Authorization successful! You can close this window.</h1>'',
         ServerClose]\<rparr>"
  by (simp add: world_empty_token_def demo_defs flow_defs Let_def)

lemma flow_listener_empty_access_token:
  "flow_listener world_empty_access_token =
     \<lparr>listening = False, promise_state = Resolved ''ABC123'',
      outcomes = [Resolved ''ABC123''], crashed = None,
      trace =
        [OpenBrowser demo_authUrl_text, Listen 4000 None, ConsoleLog listening_text,
         WriteHead 200 [(''Content-Type'', ''text/html'')],
         End ''<h1>Authorization successful! You can close this window.</h1>'',
         ServerClose]\<rparr>"
  by (simp add: world_empty_access_token_def demo_defs flow_defs Let_def)




lemma flow_listener_bind_fails:
  "flow_listener world_bind_fails =
     \<lparr>listening = False, promise_state = Pending, outcomes = [],
      crashed = Some (ListenError ''EADDRINUSE''),
      trace = [OpenBrowser demo_authUrl_text, Listen 4000 None]\<rparr>"
  by (simp add: world_bind_fails_def demo_defs flow_defs Let_def)

lemma flow_listener_no_redirect:
  "flow_listener world_no_redirect =
     \<lparr>listening = False, promise_state = Rejected (TypeError ''Invalid URL''),
      outcomes = [Rejected (TypeError ''Invalid URL'')], crashed = None,
      trace = [OpenBrowser demo_authUrl_text]\<rparr>"
  by (simp add: world_no_redirect_def demo_defs flow_defs Let_def)

lemma flow_listener_port_80:
  "flow_listener world_port_80 =
     \<lparr>listening = True, promise_state = Pending, outcomes = [], crashed = None,
      trace = [OpenBrowser demo_authUrl_text, Listen 4000 None,
               ConsoleLog ''Listening for Spotify redirect on http://localhost:80/callback'']\<rparr>"
  by (simp add: world_port_80_def demo_defs flow_defs Let_def)

lemma flow_listener_port_8080:
  "flow_listener world_port_8080 =
     \<lparr>listening = True, promise_state = Pending, outcomes = [], crashed = None,
      trace = [OpenBrowser demo_authUrl_text, Listen 8080 None,
               ConsoleLog ''Listening for Spotify redirect on http://localhost:8080/callback'']\<rparr>"
  by (simp add: world_port_8080_def demo_defs flow_defs Let_def)

section \<open>The claims\<close>

text \<open>
  Claim C1. When the awaited promise is resolved with a code and the token exchange for
  that code returns a truthy token, the flow returns a client whose credentials carry
  exactly that token.
\<close>

theorem authenticate_returns_session_with_token:
  assumes "result (flow_listener w) = Resolved code"
      and "fetchToken w code = Inr token"
      and "truthy token"
  shows "\<exists>session.
           snd (initializeSpotifyClientWithOAuth w) = Returned session \<and>
           oAuthToken (authorizationCodeAuthCredentials (client_config session)) = Some token"
  using flow_resolved_token [OF assms]
  by (simp add: withConfiguration_def new_Client_def)

theorem authenticate_returns_session_with_token_witness:
  "result (flow_listener world_success) = Resolved ''ABC123'' \<and>
   fetchToken world_success ''ABC123'' = Inr demo_token \<and>
   truthy demo_token \<and>
   (\<exists>session.
      snd (initializeSpotifyClientWithOAuth world_success) = Returned session \<and>
      oAuthToken (authorizationCodeAuthCredentials (client_config session)) = Some demo_token)"
proof -
  have h1: "result (flow_listener world_success) = Resolved ''ABC123''"
    by (simp add: flow_listener_success result_def)
  have h2: "fetchToken world_success ''ABC123'' = Inr demo_token"
    by (simp add: world_success_def demo_world_def)
  have h3: "truthy demo_token"
    by (simp add: demo_token_def)
  from authenticate_returns_session_with_token [OF h1 h2 h3]
  show ?thesis using h1 h2 h3 by simp
qed

text \<open>
  Claim C2 says that after the first request the listener is closed and any later
  request is never received or ignored. In the run below the first request carries no
  code and the promise is rejected; a later request on the kept-alive connection is
  received and answered with status 200 and the success page, and one whose Host header
  is no host ends the process with an uncaught \<open>TypeError\<close>.
\<close>

theorem later_request_answered_counterexample:
  "promise_state (flow_listener world_denied) = Rejected (Error ''No code found in callback'') \<and>
   trace (run_listener world_denied [KeepAlive code_request] (flow_listener world_denied)) =
     trace (flow_listener world_denied) @
       [WriteHead 200 [(''Content-Type'', ''text/html'')],
        End ''<h1>Authorization successful! You can close this window.</h1>'',
        ServerClose] \<and>
   crashed (run_listener world_denied [KeepAlive bad_host_request] (flow_listener world_denied)) =
     Some (TypeError ''Invalid URL'')"
proof -
  have later: "trace (run_listener world_denied [KeepAlive code_request]
                        (flow_listener world_denied)) =
     trace (flow_listener world_denied) @
       [WriteHead 200 [(''Content-Type'', ''text/html'')],
        End ''<h1>Authorization successful! You can close this window.</h1>'',
        ServerClose]"
    by (simp add: flow_listener_denied)
       (simp add: world_denied_def demo_defs on_request_def missing_host_def handler_def
          fullUrl_def searchParams_get_def new_URL_def respond_fields)
  have ends: "crashed (run_listener world_denied [KeepAlive bad_host_request]
                         (flow_listener world_denied)) = Some (TypeError ''Invalid URL'')"
    by (simp add: flow_listener_denied)
       (simp add: world_denied_def demo_defs on_request_def missing_host_def handler_def
          fullUrl_def new_URL_def)
  from later ends show ?thesis by (simp add: flow_listener_denied)
qed

text \<open>
  Claim C2, amended. In every run at most one settlement of the promise takes effect,
  whatever requests arrive during and after the flow. When the first request reaches
  the handler and its URL parses, the promise is settled exactly once, by that request:
  resolved with its code, or rejected when it has no code or an empty one. From then on
  the server does not listen and a request on a new connection is not received; a
  request on a kept-alive connection is still received and answered, but leaves the
  promise and its one outcome as they are.
\<close>

theorem callback_settled_exactly_once:
  "length (outcomes (run_listener w later (getSpotifyAuthCode w authUrl redirect))) \<le> 1 \<and>
   (new_URL w redirect = Some ru \<and> bind_error w (listen_port ru) = None \<and>
    arrivals w = NewConnection req # rest \<and> \<not> missing_host req \<and>
    new_URL w (fullUrl req) = Some u \<longrightarrow>
      outcomes (run_listener w later (getSpotifyAuthCode w authUrl redirect)) =
        [case searchParams_get (url_query u) ''code'' of
           None \<Rightarrow> Rejected (Error ''No code found in callback'')
         | Some code \<Rightarrow>
             if code \<noteq> [] then Resolved code
             else Rejected (Error ''No code found in callback'')] \<and>
      promise_state (run_listener w later (getSpotifyAuthCode w authUrl redirect)) =
        (case searchParams_get (url_query u) ''code'' of
           None \<Rightarrow> Rejected (Error ''No code found in callback'')
         | Some code \<Rightarrow>
             if code \<noteq> [] then Resolved code
             else Rejected (Error ''No code found in callback'')) \<and>
      \<not> listening (run_listener w later (getSpotifyAuthCode w authUrl redirect)) \<and>
      deliver w (NewConnection r) (run_listener w later (getSpotifyAuthCode w authUrl redirect)) =
        run_listener w later (getSpotifyAuthCode w authUrl redirect))"
proof -
  let ?g = "getSpotifyAuthCode w authUrl redirect"
  let ?s = "run_listener w later ?g"
  let ?v = "case searchParams_get (url_query u) ''code'' of
              None \<Rightarrow> Rejected (Error ''No code found in callback'')
            | Some code \<Rightarrow>
                if code \<noteq> [] then Resolved code
                else Rejected (Error ''No code found in callback'')"
  have "one_shot ?s"
    using getSpotifyAuthCode_one_shot by (rule run_listener_one_shot)
  then have len: "length (outcomes ?s) \<le> 1"
    by (rule one_shot_length)
  have once: "outcomes ?s = [?v] \<and> promise_state ?s = ?v \<and> \<not> listening ?s \<and>
              deliver w (NewConnection r) ?s = ?s"
    if parsed: "new_URL w redirect = Some ru" and bound: "bind_error w (listen_port ru) = None"
      and first: "arrivals w = NewConnection req # rest" and host: "\<not> missing_host req"
      and url: "new_URL w (fullUrl req) = Some u"
  proof -
    let ?h = "handler w req (bound_listener authUrl redirect (listen_port ru))"
    have g: "?g = run_listener w rest ?h"
      using parsed bound first host by (rule getSpotifyAuthCode_first_request)
    have h: "promise_state ?h = ?v" "outcomes ?h = [?v]" "\<not> listening ?h"
      using url by (simp_all add: handler_def respond_fields split: option.splits)
    have settled: "promise_state ?h \<noteq> Pending"
      using h(1) by (simp split: option.splits)
    have "promise_state ?g = ?v" "outcomes ?g = [?v]"
      using run_listener_keeps_settled [OF settled, of w rest] h by (simp_all add: g)
    moreover from this settled h(1) have "promise_state ?g \<noteq> Pending" by simp
    ultimately have keep: "promise_state ?s = ?v" "outcomes ?s = [?v]"
      using run_listener_keeps_settled [of ?g w later] by simp_all
    have "\<not> listening ?g"
      using h(3) by (simp add: g run_listener_never_listens)
    then have closed: "\<not> listening ?s"
      by (rule run_listener_never_listens)
    then have "deliver w (NewConnection r) ?s = ?s"
      by (rule deliver_refused)
    with keep closed show ?thesis by simp
  qed
  from len once show ?thesis by blast
qed

theorem callback_settled_exactly_once_witness:
  "new_URL world_denied ''http://localhost:4000/callback'' = Some (demo_url (Some 4000) []) \<and>
   bind_error world_denied (listen_port (demo_url (Some 4000) [])) = None \<and>
   arrivals world_denied = NewConnection denied_request # [] \<and>
   \<not> missing_host denied_request \<and>
   new_URL world_denied (fullUrl denied_request) =
     Some (demo_url (Some 4000) [(''error'', ''access_denied'')]) \<and>
   outcomes (run_listener world_denied [KeepAlive code_request]
               (getSpotifyAuthCode world_denied demo_authUrl_text
                  ''http://localhost:4000/callback'')) =
     [Rejected (Error ''No code found in callback'')]"
proof -
  have h1: "new_URL world_denied ''http://localhost:4000/callback'' =
              Some (demo_url (Some 4000) [])"
    by (simp add: world_denied_def demo_world_def demo_parse_def new_URL_def demo_url_def)
  have h2: "bind_error world_denied (listen_port (demo_url (Some 4000) [])) = None"
    by (simp add: world_denied_def demo_world_def bind_ok_def)
  have h3: "arrivals world_denied = NewConnection denied_request # []"
    by (simp add: world_denied_def demo_world_def)
  have h4: "\<not> missing_host denied_request"
    by (simp add: missing_host_def denied_request_def demo_request_def)
  have h5: "new_URL world_denied (fullUrl denied_request) =
              Some (demo_url (Some 4000) [(''error'', ''access_denied'')])"
    by (simp add: world_denied_def demo_defs fullUrl_def new_URL_def)
  have q: "searchParams_get (url_query (demo_url (Some 4000) [(''error'', ''access_denied'')]))
             ''code'' = None"
    by (simp add: demo_url_def searchParams_get_def)
  from callback_settled_exactly_once
    [of world_denied "[KeepAlive code_request]" demo_authUrl_text
        "''http://localhost:4000/callback''" "demo_url (Some 4000) []" denied_request "[]"
        "demo_url (Some 4000) [(''error'', ''access_denied'')]" code_request]
  show ?thesis using h1 h2 h3 h4 h5 by (simp add: q)
qed







text \<open>
  Claim C5 says that an empty token from the token exchange makes the flow fail. The
  program tests the truthiness of the value \<open>fetchToken\<close> gives, and a token object is
  truthy whatever its fields hold. In the run below the exchange gives a token object
  whose access token is the empty string: the flow calls \<open>withConfiguration\<close> and
  returns a client carrying that token.
\<close>

theorem empty_access_token_accepted_counterexample:
  "fetchToken world_empty_access_token ''ABC123'' =
     Inr (TokenObject \<lparr>accessToken = [], tokenType = ''Bearer''\<rparr>) \<and>
   snd (initializeSpotifyClientWithOAuth world_empty_access_token) =
     Returned
       (withConfiguration (new_Client (initial_config (process_env world_empty_access_token)))
          ((initial_credentials (process_env world_empty_access_token))
             \<lparr>oAuthToken := Some (TokenObject \<lparr>accessToken = [], tokenType = ''Bearer''\<rparr>)\<rparr>)) \<and>
   WithConfiguration
     ((initial_credentials (process_env world_empty_access_token))
        \<lparr>oAuthToken := Some (TokenObject \<lparr>accessToken = [], tokenType = ''Bearer''\<rparr>)\<rparr>)
     \<in> set (fst (initializeSpotifyClientWithOAuth world_empty_access_token))"
proof -
  have h1: "result (flow_listener world_empty_access_token) = Resolved ''ABC123''"
    by (simp add: flow_listener_empty_access_token result_def)
  have h2: "fetchToken world_empty_access_token ''ABC123'' =
              Inr (TokenObject \<lparr>accessToken = [], tokenType = ''Bearer''\<rparr>)"
    by (simp add: world_empty_access_token_def demo_world_def)
  have h3: "truthy (TokenObject \<lparr>accessToken = [], tokenType = ''Bearer''\<rparr>)"
    by simp
  from flow_resolved_token [OF h1 h2 h3] h2 show ?thesis by simp
qed

text \<open>
  Claim C5, amended. When the token exchange gives a falsy value (\<open>undefined\<close>, \<open>null\<close>
  or the empty string), the flow throws the error \<open>Failed to fetch token!\<close> and its
  trace holds no call of \<open>withConfiguration\<close>: no authenticated client is built.
\<close>

theorem empty_token_fails_without_session:
  assumes "result (flow_listener w) = Resolved code"
      and "fetchToken w code = Inr token"
      and "\<not> truthy token"
  shows "snd (initializeSpotifyClientWithOAuth w) = Thrown (Error ''Failed to fetch token!'') \<and>
         (\<forall>c. WithConfiguration c \<notin> set (fst (initializeSpotifyClientWithOAuth w)))"
proof -
  have flow:
    "initializeSpotifyClientWithOAuth w =
       (ConsoleLog ''OAuth: Starting Spotify OAuth flow...'' # trace (flow_listener w) @
          [ConsoleLog ''OAuth: Received authorization code. Fetching access token...'',
           FetchToken code],
        Thrown (Error ''Failed to fetch token!''))"
    using assms by (rule flow_resolved_no_token)
  have "\<forall>c. WithConfiguration c \<notin> set (trace (flow_listener w))"
    by (simp add: flow_listener_def listener_trace_no_WithConfiguration)
  then show ?thesis by (simp add: flow)
qed

theorem empty_token_fails_without_session_witness:
  "result (flow_listener world_empty_token) = Resolved ''ABC123'' \<and>
   fetchToken world_empty_token ''ABC123'' = Inr (TokenString []) \<and>
   \<not> truthy (TokenString []) \<and>
   snd (initializeSpotifyClientWithOAuth world_empty_token) =
     Thrown (Error ''Failed to fetch token!'')"
proof -
  have h1: "result (flow_listener world_empty_token) = Resolved ''ABC123''"
    by (simp add: flow_listener_empty_token result_def)
  have h2: "fetchToken world_empty_token ''ABC123'' = Inr (TokenString [])"
    by (simp add: world_empty_token_def demo_world_def)
  have h3: "\<not> truthy (TokenString [])"
    by simp
  from empty_token_fails_without_session [OF h1 h2 h3]
  show ?thesis using h1 h2 h3 by simp
qed

text \<open>
  Claim C6 says that in every run the listener is listening before or while the browser
  is launched. In the first run below the redirect URI is empty and does not parse: the
  browser is opened, \<open>listen\<close> is never called and the flow throws. In the successful
  run the opening of the browser comes before the call of \<open>listen\<close>.
\<close>

theorem browser_opened_without_listener_counterexample:
  "initializeSpotifyClientWithOAuth world_no_redirect =
     ([ConsoleLog ''OAuth: Starting Spotify OAuth flow...'', OpenBrowser demo_authUrl_text],
      Thrown (TypeError ''Invalid URL'')) \<and>
   listen_calls (fst (initializeSpotifyClientWithOAuth world_no_redirect)) = [] \<and>
   listening (flow_listener world_no_redirect) = False \<and>
   take 2 (trace (flow_listener world_success)) =
     [OpenBrowser demo_authUrl_text, Listen 4000 None]"
proof -
  have "result (flow_listener world_no_redirect) = Rejected (TypeError ''Invalid URL'')"
    by (simp add: flow_listener_no_redirect result_def)
  then have "initializeSpotifyClientWithOAuth world_no_redirect =
     (ConsoleLog ''OAuth: Starting Spotify OAuth flow...'' #
        trace (flow_listener world_no_redirect),
      Thrown (TypeError ''Invalid URL''))"
    by (rule flow_rejected)
  then show ?thesis
    by (simp add: flow_listener_no_redirect flow_listener_success)
qed

text \<open>
  Claim C6, amended. In every run the opening of the browser is the first effect of
  \<open>getSpotifyAuthCode\<close>, before any call of \<open>listen\<close>. When the redirect URI parses,
  the call of \<open>listen\<close> is the very next effect, and the server listens only when the
  bind succeeds; when the redirect URI does not parse, opening the browser is the only
  effect and the server never listens.
\<close>

theorem browser_opened_before_listen:
  "(\<exists>rest. trace (getSpotifyAuthCode w authUrl redirect) = OpenBrowser authUrl # rest) \<and>
   (new_URL w redirect = None \<longrightarrow>
      trace (getSpotifyAuthCode w authUrl redirect) = [OpenBrowser authUrl] \<and>
      \<not> listening (getSpotifyAuthCode w authUrl redirect)) \<and>
   (\<forall>u. new_URL w redirect = Some u \<longrightarrow>
      (\<exists>rest. trace (getSpotifyAuthCode w authUrl redirect) =
                 OpenBrowser authUrl # Listen (listen_port u) None # rest) \<and>
      (bind_error w (listen_port u) \<noteq> None \<longrightarrow>
         \<not> listening (getSpotifyAuthCode w authUrl redirect)))"
proof -
  have first: "\<exists>rest. trace (getSpotifyAuthCode w authUrl redirect) = OpenBrowser authUrl # rest"
    by (rule getSpotifyAuthCode_opens_browser_first)
  have unparsed: "trace (getSpotifyAuthCode w authUrl redirect) = [OpenBrowser authUrl] \<and>
                  \<not> listening (getSpotifyAuthCode w authUrl redirect)"
    if "new_URL w redirect = None"
    using that by (simp add: getSpotifyAuthCode_no_URL)
  have parsed: "(\<exists>rest. trace (getSpotifyAuthCode w authUrl redirect) =
                          OpenBrowser authUrl # Listen (listen_port u) None # rest) \<and>
                (bind_error w (listen_port u) \<noteq> None \<longrightarrow>
                   \<not> listening (getSpotifyAuthCode w authUrl redirect))"
    if u: "new_URL w redirect = Some u" for u
  proof -
    have "\<not> listening (getSpotifyAuthCode w authUrl redirect)"
      if "bind_error w (listen_port u) \<noteq> None"
    proof -
      from that obtain e where "bind_error w (listen_port u) = Some e" by blast
      with u show ?thesis by (simp add: getSpotifyAuthCode_bind_failed)
    qed
    with getSpotifyAuthCode_listen_follows [OF u] show ?thesis by blast
  qed
  from first unparsed parsed show ?thesis by blast
qed

theorem browser_opened_before_listen_witness:
  "new_URL world_no_redirect [] = None \<and>
   trace (getSpotifyAuthCode world_no_redirect demo_authUrl_text []) =
     [OpenBrowser demo_authUrl_text] \<and>
   \<not> listening (getSpotifyAuthCode world_no_redirect demo_authUrl_text []) \<and>
   new_URL world_bind_fails ''http://localhost:4000/callback'' =
     Some (demo_url (Some 4000) []) \<and>
   bind_error world_bind_fails (listen_port (demo_url (Some 4000) [])) \<noteq> None \<and>
   \<not> listening (getSpotifyAuthCode world_bind_fails demo_authUrl_text
                   ''http://localhost:4000/callback'')"
proof -
  have h1: "new_URL world_no_redirect [] = None"
    by (simp add: world_no_redirect_def demo_world_def demo_parse_def new_URL_def)
  have h2: "new_URL world_bind_fails ''http://localhost:4000/callback'' =
              Some (demo_url (Some 4000) [])"
    by (simp add: world_bind_fails_def demo_world_def demo_parse_def new_URL_def demo_url_def)
  have h3: "bind_error world_bind_fails (listen_port (demo_url (Some 4000) [])) \<noteq> None"
    by (simp add: world_bind_fails_def demo_world_def bind_fails_def)
  from browser_opened_before_listen [of world_no_redirect demo_authUrl_text "[]"]
       browser_opened_before_listen
         [of world_bind_fails demo_authUrl_text "''http://localhost:4000/callback''"]
  show ?thesis using h1 h2 h3 by simp
qed

text \<open>
  Claim C7 says that a failed bind makes the operation fail with the bind error before
  any round-trip to the provider. In the run below the bind fails with \<open>EADDRINUSE\<close>:
  the flow does not throw the error to its caller (the error is uncaught and ends the
  process), and the browser has been opened on the authorization URL before the call of
  \<open>listen\<close>.
\<close>

theorem bind_failure_not_surfaced_counterexample:
  "snd (initializeSpotifyClientWithOAuth world_bind_fails) = Crashed (ListenError ''EADDRINUSE'') \<and>
   snd (initializeSpotifyClientWithOAuth world_bind_fails) \<noteq> Thrown (ListenError ''EADDRINUSE'') \<and>
   fst (initializeSpotifyClientWithOAuth world_bind_fails) =
     [ConsoleLog ''OAuth: Starting Spotify OAuth flow...'',
      OpenBrowser demo_authUrl_text, Listen 4000 None]"
proof -
  have "initializeSpotifyClientWithOAuth world_bind_fails =
          (ConsoleLog ''OAuth: Starting Spotify OAuth flow...'' #
             trace (flow_listener world_bind_fails),
           Crashed (ListenError ''EADDRINUSE''))"
    by (rule flow_crashed) (simp_all add: flow_listener_bind_fails result_def)
  then show ?thesis by (simp add: flow_listener_bind_fails)
qed

text \<open>
  Claim C7, amended. When the redirect URI parses and the bind fails, the flow neither
  returns nor throws: the bind error is an uncaught \<open>error\<close> event of the server. Its
  whole trace is the start message, the opening of the browser and the call of
  \<open>listen\<close>, so no token is fetched and no client is built.
\<close>

theorem bind_failure_crashes_after_browser:
  assumes "new_URL w (redirectUri (process_env w)) = Some ru"
      and "bind_error w (listen_port ru) = Some e"
  shows "initializeSpotifyClientWithOAuth w =
           ([ConsoleLog ''OAuth: Starting Spotify OAuth flow...'',
             OpenBrowser (buildAuthorizationUrl w (initial_credentials (process_env w))),
             Listen (listen_port ru) None],
            Crashed e)"
proof -
  have listener: "flow_listener w =
      \<lparr>listening = False, promise_state = Pending, outcomes = [], crashed = Some e,
       trace = [OpenBrowser (buildAuthorizationUrl w (initial_credentials (process_env w))),
                Listen (listen_port ru) None]\<rparr>"
    unfolding flow_listener_def using assms by (rule getSpotifyAuthCode_bind_failed)
  have "initializeSpotifyClientWithOAuth w =
          (ConsoleLog ''OAuth: Starting Spotify OAuth flow...'' # trace (flow_listener w),
           Crashed e)"
    by (rule flow_crashed) (simp_all add: listener result_def)
  then show ?thesis by (simp add: listener)
qed

theorem bind_failure_crashes_after_browser_witness:
  "new_URL world_bind_fails (redirectUri (process_env world_bind_fails)) =
     Some (demo_url (Some 4000) []) \<and>
   bind_error world_bind_fails (listen_port (demo_url (Some 4000) [])) =
     Some (ListenError ''EADDRINUSE'') \<and>
   initializeSpotifyClientWithOAuth world_bind_fails =
     ([ConsoleLog ''OAuth: Starting Spotify OAuth flow...'',
       OpenBrowser demo_authUrl_text, Listen 4000 None],
      Crashed (ListenError ''EADDRINUSE''))"
proof -
  have h1: "new_URL world_bind_fails (redirectUri (process_env world_bind_fails)) =
              Some (demo_url (Some 4000) [])"
    by (simp add: world_bind_fails_def demo_world_def demo_parse_def new_URL_def demo_url_def)
  have h2: "bind_error world_bind_fails (listen_port (demo_url (Some 4000) [])) =
              Some (ListenError ''EADDRINUSE'')"
    by (simp add: world_bind_fails_def demo_world_def bind_fails_def)
  have url: "buildAuthorizationUrl world_bind_fails
               (initial_credentials (process_env world_bind_fails)) = demo_authUrl_text"
    by (simp add: world_bind_fails_def demo_defs initial_credentials_def clientId_def
        env_or_empty_def)
  from bind_failure_crashes_after_browser [OF h1 h2]
  show ?thesis using h1 h2 by (simp add: url demo_listen_port_4000)
qed

text \<open>
  Claim C8 says that the listener listens on the loopback interface only. In the
  successful run the one call of \<open>listen\<close> has port 4000 and no host, which is not a
  loopback-only bind.
\<close>

theorem listens_on_all_interfaces_counterexample:
  "listen_calls (trace (flow_listener world_success)) = [(4000, None)] \<and>
   \<not> loopback_only None"
  by (simp add: flow_listener_success loopback_only_def)

text \<open>
  Claim C8, amended. When the redirect URI parses, the listener calls \<open>listen\<close> exactly
  once, with the port computed from the redirect URI and with no host argument: it
  listens on the unspecified address, not on the loopback interface only.
\<close>

theorem listens_once_without_host:
  assumes "new_URL w redirect = Some u"
  shows "listen_calls (trace (getSpotifyAuthCode w authUrl redirect)) = [(listen_port u, None)] \<and>
         \<not> loopback_only None"
  using getSpotifyAuthCode_listen_calls [OF assms]
  by (simp add: loopback_only_def)

theorem listens_once_without_host_witness:
  "new_URL world_no_port ''http://localhost/callback'' = Some (demo_url None []) \<and>
   listen_calls (trace (getSpotifyAuthCode world_no_port demo_authUrl_text
                          ''http://localhost/callback'')) = [(4000, None)]"
proof -
  have h: "new_URL world_no_port ''http://localhost/callback'' = Some (demo_url None [])"
    by (simp add: world_no_port_def demo_world_def demo_parse_def new_URL_def demo_url_def)
  have p: "listen_port (demo_url None []) = 4000"
    by (simp add: listen_port_eq demo_url_def)
  from listens_once_without_host [OF h, of demo_authUrl_text]
  show ?thesis using h by (simp add: p)
qed

text \<open>
  Claim C9 says that an explicit numeric port in the redirect URI is the port bound.
  The redirect URI \<open>http://localhost:80/callback\<close> has the explicit port 80, the
  default port of its scheme, for which the \<open>port\<close> getter is the empty string: the
  program calls \<open>listen\<close> with 4000 and logs that it listens on the URI with port 80.
  With \<open>http://localhost:8080/callback\<close> it calls \<open>listen\<close> with 8080.
\<close>

theorem redirect_port_80_binds_4000:
  "new_URL world_port_80 (redirectUri (process_env world_port_80)) =
     Some (demo_url (Some 80) []) \<and>
   url_explicit_port (demo_url (Some 80) []) = Some 80 \<and>
   listen_port (demo_url (Some 80) []) = 4000 \<and>
   trace (flow_listener world_port_80) =
     [OpenBrowser demo_authUrl_text, Listen 4000 None,
      ConsoleLog ''Listening for Spotify redirect on http://localhost:80/callback''] \<and>
   trace (flow_listener world_port_8080) =
     [OpenBrowser demo_authUrl_text, Listen 8080 None,
      ConsoleLog ''Listening for Spotify redirect on http://localhost:8080/callback'']"
proof -
  have parsed: "new_URL world_port_80 (redirectUri (process_env world_port_80)) =
                  Some (demo_url (Some 80) [])"
    by (simp add: world_port_80_def demo_world_def demo_parse_def new_URL_def demo_url_def)
  have port: "listen_port (demo_url (Some 80) []) = 4000"
    by (simp add: listen_port_eq demo_url_def default_port_def)
  from parsed port show ?thesis
    by (simp add: flow_listener_port_80 flow_listener_port_8080 demo_url_def)
qed

text \<open>
  Claim C10. A client returned by the flow has the client id, client secret, redirect
  URI and scopes of the initial configuration; its credentials are the initial ones with
  only the token set, and the timeout and the environment are unchanged.
\<close>

theorem session_keeps_configuration:
  assumes "snd (initializeSpotifyClientWithOAuth w) = Returned session"
  shows "oAuthClientId (authorizationCodeAuthCredentials (client_config session)) =
           oAuthClientId (initial_credentials (process_env w)) \<and>
         oAuthClientSecret (authorizationCodeAuthCredentials (client_config session)) =
           oAuthClientSecret (initial_credentials (process_env w)) \<and>
         oAuthRedirectUri (authorizationCodeAuthCredentials (client_config session)) =
           oAuthRedirectUri (initial_credentials (process_env w)) \<and>
         oAuthScopes (authorizationCodeAuthCredentials (client_config session)) =
           oAuthScopes (initial_credentials (process_env w)) \<and>
         (\<exists>token.
            authorizationCodeAuthCredentials (client_config session) =
              (initial_credentials (process_env w))\<lparr>oAuthToken := Some token\<rparr>) \<and>
         timeout (client_config session) = timeout (initial_config (process_env w)) \<and>
         environment (client_config session) = environment (initial_config (process_env w))"
proof -
  from flow_returned_cases [OF assms] obtain token where
    "session = withConfiguration (new_Client (initial_config (process_env w)))
                 ((initial_credentials (process_env w))\<lparr>oAuthToken := Some token\<rparr>)"
    by blast
  then show ?thesis
    by (auto simp: withConfiguration_def new_Client_def)
qed

theorem session_keeps_configuration_witness:
  "snd (initializeSpotifyClientWithOAuth world_success) =
     Returned (withConfiguration (new_Client (initial_config (process_env world_success)))
                ((initial_credentials (process_env world_success))
                   \<lparr>oAuthToken := Some demo_token\<rparr>)) \<and>
   authorizationCodeAuthCredentials
     (client_config
        (withConfiguration (new_Client (initial_config (process_env world_success)))
           ((initial_credentials (process_env world_success))
              \<lparr>oAuthToken := Some demo_token\<rparr>))) =
     \<lparr>oAuthClientId = ''cid'', oAuthClientSecret = ''shh'',
      oAuthRedirectUri = ''http://localhost:4000/callback'',
      oAuthScopes = [PlaylistModifyPrivate, PlaylistModifyPublic, UserReadPrivate],
      oAuthToken = Some demo_token\<rparr>"
proof -
  have h1: "result (flow_listener world_success) = Resolved ''ABC123''"
    by (simp add: flow_listener_success result_def)
  have h2: "fetchToken world_success ''ABC123'' = Inr demo_token"
    by (simp add: world_success_def demo_world_def)
  have h3: "truthy demo_token"
    by (simp add: demo_token_def)
  have ret: "snd (initializeSpotifyClientWithOAuth world_success) =
     Returned (withConfiguration (new_Client (initial_config (process_env world_success)))
                ((initial_credentials (process_env world_success))
                   \<lparr>oAuthToken := Some demo_token\<rparr>))"
    by (simp add: flow_resolved_token [OF h1 h2 h3])
  have env: "initial_credentials (process_env world_success) =
     \<lparr>oAuthClientId = ''cid'', oAuthClientSecret = ''shh'',
      oAuthRedirectUri = ''http://localhost:4000/callback'',
      oAuthScopes = [PlaylistModifyPrivate, PlaylistModifyPublic, UserReadPrivate],
      oAuthToken = None\<rparr>"
    by (simp add: world_success_def demo_world_def demo_env_def initial_credentials_def
        clientId_def clientSecret_def redirectUri_def env_or_empty_def)
  from session_keeps_configuration [OF ret]
  show ?thesis using ret by (simp add: env withConfiguration_def new_Client_def)
qed

end
